theory Spec2Isabelle
  imports Complex_Main
begin

section \<open>Orbital elements of a Keplerian two-body system (twobody/elements.py)\<close>

text \<open>
  The module builds validated element objects from physical quantities. The embedding
  follows the Python text: every \<^verbatim>\<open>raise\<close> is an \<open>Inl\<close> branch, an instance is a record
  of its attribute slots (\<open>None\<close>: the attribute has not been set), and the class attribute
  \<^verbatim>\<open>names\<close> is a list of strings that the base initialiser walks.

  Numbers: Python floats and ints are read as the real numbers they denote, so
  comparisons are exact and arithmetic is not rounded; NaN and the infinities have no
  counterpart. A quantity is its physical value, held as the magnitude in the units of
  the default unit system (AU, day, solar mass, degree) together with its dimension;
  unit conversion, which only changes the representation, is therefore the identity.
\<close>

subsection \<open>Exceptions\<close>

text \<open>
  \<open>NonFinite\<close> is not a Python exception: numpy returns inf or nan for a division by
  zero, which the reals cannot hold, and the model stops there.
\<close>

datatype error =
    ValueError string
  | AttributeError string
  | TypeError string
  | UnitsError string
  | NonFinite string

text \<open>Sequencing: the first exception ends the computation.\<close>

fun and_then :: "error + 'a \<Rightarrow> ('a \<Rightarrow> error + 'b) \<Rightarrow> error + 'b" where
  "and_then (Inl err) f = Inl err"
| "and_then (Inr x) f = f x"

subsection \<open>Quantities (astropy.units, seen through the operations the module uses)\<close>

text \<open>Exponents of length, time, mass and angle.\<close>

datatype dim = Dim int int int int

definition dimensionless :: dim where "dimensionless = Dim 0 0 0 0"
definition length_dim :: dim where "length_dim = Dim 1 0 0 0"
definition time_dim :: dim where "time_dim = Dim 0 1 0 0"
definition mass_dim :: dim where "mass_dim = Dim 0 0 1 0"
definition angle_dim :: dim where "angle_dim = Dim 0 0 0 1"

fun dim_mul :: "dim \<Rightarrow> dim \<Rightarrow> dim" where
  "dim_mul (Dim l t m g) (Dim l' t' m' g') = Dim (l + l') (t + t') (m + m') (g + g')"

fun dim_div :: "dim \<Rightarrow> dim \<Rightarrow> dim" where
  "dim_div (Dim l t m g) (Dim l' t' m' g') = Dim (l - l') (t - t') (m - m') (g - g')"

datatype quantity = Quantity real dim

fun qvalue :: "quantity \<Rightarrow> real" where
  "qvalue (Quantity v d) = v"

fun qdim :: "quantity \<Rightarrow> dim" where
  "qdim (Quantity v d) = d"

text \<open>\<^verbatim>\<open>x + y\<close> on quantities: the units must be convertible.\<close>

definition q_add :: "quantity \<Rightarrow> quantity \<Rightarrow> error + quantity" where
  "q_add x y =
     (if qdim x = qdim y then Inr (Quantity (qvalue x + qvalue y) (qdim x))
      else Inl (UnitsError ''+''))"

definition q_mul :: "quantity \<Rightarrow> quantity \<Rightarrow> quantity" where
  "q_mul x y = Quantity (qvalue x * qvalue y) (dim_mul (qdim x) (qdim y))"

definition q_div :: "quantity \<Rightarrow> quantity \<Rightarrow> error + quantity" where
  "q_div x y =
     (if qvalue y = 0 then Inl (NonFinite ''/'')
      else Inr (Quantity (qvalue x / qvalue y) (dim_div (qdim x) (qdim y))))"

text \<open>\<^verbatim>\<open>q.to(unit)\<close>: a conversion to a unit of another dimension raises.\<close>

definition q_to :: "dim \<Rightarrow> quantity \<Rightarrow> error + quantity" where
  "q_to d q = (if qdim q = d then Inr q else Inl (UnitsError ''to''))"

text \<open>
  One argument of the \<^verbatim>\<open>@u.quantity_input\<close> decorator: an argument that is \<^verbatim>\<open>None\<close>
  (the default of every annotated parameter) is let through, any other must have the
  dimension of the annotation.
\<close>

definition check_unit :: "string \<Rightarrow> dim \<Rightarrow> quantity option \<Rightarrow> error + unit" where
  "check_unit name d arg =
     (case arg of
        None \<Rightarrow> Inr ()
      | Some q \<Rightarrow> if qdim q = d then Inr () else Inl (UnitsError name))"

text \<open>\<^verbatim>\<open>coord.Angle(x).wrap_at(360*u.deg)\<close>, in degrees.\<close>

definition wrap_at_360 :: "real \<Rightarrow> real" where
  "wrap_at_360 x = x - 360 * of_int \<lfloor>x / 360\<rfloor>"

definition wrap_angle :: "quantity \<Rightarrow> quantity" where
  "wrap_angle q = Quantity (wrap_at_360 (qvalue q)) (qdim q)"

subsection \<open>Number formatting (\<^verbatim>\<open>str(int)\<close> and the format code \<^verbatim>\<open>.3f\<close>)\<close>

definition digit_char :: "nat \<Rightarrow> char" where
  "digit_char d = ''0123456789'' ! d"

function show_nat :: "nat \<Rightarrow> string" where
  "show_nat n = (if n < 10 then [digit_char n] else show_nat (n div 10) @ [digit_char (n mod 10)])"
  by pat_completeness auto
termination
  by (relation "measure (\<lambda>n. n)") auto

declare show_nat.simps [simp del]

text \<open>Rounding to the nearest integer, ties to even, of a non-negative real.\<close>

definition round_half_even :: "real \<Rightarrow> nat" where
  "round_half_even y =
     (let f = \<lfloor>y\<rfloor>; r = y - of_int f
      in nat (if r < 1 / 2 then f
              else if 1 / 2 < r then f + 1
              else if even f then f else f + 1))"

text \<open>\<^verbatim>\<open>'{:.3f}'.format(x)\<close>: sign, integer part, point, exactly three decimals.\<close>

definition format_3f :: "real \<Rightarrow> string" where
  "format_3f x =
     (let n = round_half_even (\<bar>x\<bar> * 1000)
      in (if x < 0 then ''-'' else '''')
         @ show_nat (n div 1000)
         @ ''.''
         @ [digit_char (n div 100 mod 10), digit_char (n div 10 mod 10), digit_char (n mod 10)])"

text \<open>
  Formatting a quantity with a numeric format code formats the value and appends the
  unit; every angle of the model is held in degrees, so \<^verbatim>\<open>i.to(u.degree)\<close> is the value.
\<close>

definition format_3f_deg :: "quantity \<Rightarrow> string" where
  "format_3f_deg q = format_3f (qvalue q) @ '' deg''"

subsection \<open>Epochs and unit systems\<close>

datatype time =
    Time_str string
  | Time_val real string string

datatype t0_arg =
    T0_Time time
  | T0_number real

datatype unit_system = UnitSystem "string list"

datatype units_arg =
    Units_system unit_system
  | Units_iterable "string list"

text \<open>
  Modelled from the spec: \<^verbatim>\<open>UnitSystem.decompose\<close> belongs to the module
  \<^verbatim>\<open>twobody/units.py\<close>, which is not among the sources. It re-expresses a dimensioned
  value in the base units of the system; on a physical value that is the identity.
\<close>

definition decompose :: "unit_system \<Rightarrow> quantity \<Rightarrow> quantity" where
  "decompose us q = q"

subsection \<open>Classes and instances\<close>

datatype py_class = KeplerElements | TwoBodyKeplerElements

text \<open>The class attribute \<^verbatim>\<open>names\<close> (lines 68 and 169).\<close>

fun names :: "py_class \<Rightarrow> string list" where
  "names KeplerElements = [''P'', ''a'', ''e'', ''omega'', ''i'', ''Omega'', ''M0'']"
| "names TwoBodyKeplerElements =
     [''P'', ''a'', ''e'', ''m1'', ''m2'', ''omega'', ''i'', ''Omega'', ''M0'']"

text \<open>\<^verbatim>\<open>default_units\<close> of \<^verbatim>\<open>KeplerElements\<close> (line 67), inherited by the subclass.\<close>

definition default_units :: unit_system where
  "default_units = UnitSystem [''AU'', ''d'', ''solMass'', ''deg'', ''km / s'']"

text \<open>
  The instance dictionary. \<open>priv_x\<close> is the attribute \<^verbatim>\<open>_x\<close>. The classes turn \<^verbatim>\<open>m1\<close>
  and \<^verbatim>\<open>m2\<close> into read-only properties over \<^verbatim>\<open>_m1\<close> and \<^verbatim>\<open>_m2\<close>, so the dictionary
  can hold those two but never \<^verbatim>\<open>m1\<close> and \<^verbatim>\<open>m2\<close> themselves.
\<close>

record elements_obj =
  inst_cls :: py_class
  inst_units :: "unit_system option"
  priv_a :: "quantity option"
  priv_P :: "quantity option"
  priv_e :: "quantity option"
  priv_omega :: "quantity option"
  priv_i :: "quantity option"
  priv_Omega :: "quantity option"
  priv_M0 :: "quantity option"
  priv_m1 :: "quantity option"
  priv_m2 :: "quantity option"
  inst_t0 :: "time option"
  inst_m_tot :: "quantity option"

text \<open>\<^verbatim>\<open>object.__new__(cls)\<close>: nothing is set yet.\<close>

definition new_instance :: "py_class \<Rightarrow> elements_obj" where
  "new_instance c =
     \<lparr>inst_cls = c, inst_units = None, priv_a = None, priv_P = None, priv_e = None,
      priv_omega = None, priv_i = None, priv_Omega = None, priv_M0 = None,
      priv_m1 = None, priv_m2 = None, inst_t0 = None, inst_m_tot = None\<rparr>"

text \<open>\<^verbatim>\<open>getattr(self, '_' + name)\<close>, as an option.\<close>

definition lookup_private :: "elements_obj \<Rightarrow> string \<Rightarrow> quantity option" where
  "lookup_private self name =
     (if name = ''P'' then priv_P self
      else if name = ''a'' then priv_a self
      else if name = ''e'' then priv_e self
      else if name = ''omega'' then priv_omega self
      else if name = ''i'' then priv_i self
      else if name = ''Omega'' then priv_Omega self
      else if name = ''M0'' then priv_M0 self
      else if name = ''m1'' then priv_m1 self
      else if name = ''m2'' then priv_m2 self
      else None)"

text \<open>
  The property that \<^verbatim>\<open>ElementsMeta.readonly_prop_factory\<close> makes for one name
  (lines 34 to 37): \<^verbatim>\<open>self.units\<close> is read first, then the private attribute.
\<close>

definition getter :: "string \<Rightarrow> elements_obj \<Rightarrow> error + quantity" where
  "getter attr_name self =
     (case inst_units self of
        None \<Rightarrow> Inl (AttributeError ''units'')
      | Some us \<Rightarrow>
          (case lookup_private self attr_name of
             None \<Rightarrow> Inl (AttributeError (''_'' @ attr_name))
           | Some q \<Rightarrow> Inr (decompose us q)))"

subsection \<open>\<^verbatim>\<open>OrbitalElements.__init__\<close> (lines 48 to 62)\<close>

text \<open>The loop over \<^verbatim>\<open>self.names\<close> with its \<^verbatim>\<open>hasattr\<close> test.\<close>

fun all_names_set :: "elements_obj \<Rightarrow> string list \<Rightarrow> bool" where
  "all_names_set self [] = True"
| "all_names_set self (name # rest) =
     (if lookup_private self name = None then False else all_names_set self rest)"

text \<open>
  Lines 51 to 55. Modelled from the spec: the constructor \<^verbatim>\<open>UnitSystem\<close> belongs to
  \<^verbatim>\<open>twobody/units.py\<close>, which is not among the sources; a raw iterable of unit
  specifications is wrapped into a unit system.
\<close>

definition resolve_units :: "units_arg option \<Rightarrow> unit_system" where
  "resolve_units units =
     (case units of
        None \<Rightarrow> default_units
      | Some (Units_system s) \<Rightarrow> s
      | Some (Units_iterable xs) \<Rightarrow> UnitSystem xs)"

definition OrbitalElements_init :: "elements_obj \<Rightarrow> units_arg option \<Rightarrow> error + elements_obj" where
  "OrbitalElements_init self units =
     (let self' = self\<lparr>inst_units := Some (resolve_units units)\<rparr>
      in if all_names_set self' (names (inst_cls self')) then Inr self'
         else Inl (AttributeError ''Invalid class definition!''))"

subsection \<open>\<^verbatim>\<open>KeplerElements.__init__\<close> (lines 70 to 145)\<close>

text \<open>
  The keyword arguments; \<open>None\<close> is Python's \<^verbatim>\<open>None\<close>. The decorated parameters
  take quantities: a bare number there, which the decorator refuses with a
  \<^verbatim>\<open>TypeError\<close> for want of a unit, is outside the model. For \<^verbatim>\<open>e\<close>, which is not
  decorated, a plain number is the dimensionless quantity of that value.
\<close>

record kepler_args =
  arg_P :: "quantity option"
  arg_a :: "quantity option"
  arg_e :: "quantity option"
  arg_omega :: "quantity option"
  arg_i :: "quantity option"
  arg_Omega :: "quantity option"
  arg_M0 :: "quantity option"
  arg_t0 :: "t0_arg option"
  arg_units :: "units_arg option"

text \<open>The defaults of the signature (lines 72 to 74): what an omitted keyword is.\<close>

definition KeplerElements_defaults :: kepler_args where
  "KeplerElements_defaults =
     \<lparr>arg_P = None, arg_a = None, arg_e = Some (Quantity 0 dimensionless),
      arg_omega = None, arg_i = None, arg_Omega = None, arg_M0 = None,
      arg_t0 = None, arg_units = None\<rparr>"

text \<open>The decorator of lines 70 and 71, in the order of the signature.\<close>

definition KeplerElements_quantity_input :: "'x kepler_args_scheme \<Rightarrow> error + unit" where
  "KeplerElements_quantity_input args =
     and_then (check_unit ''P'' time_dim (arg_P args)) (\<lambda>_.
     and_then (check_unit ''a'' length_dim (arg_a args)) (\<lambda>_.
     and_then (check_unit ''omega'' angle_dim (arg_omega args)) (\<lambda>_.
     and_then (check_unit ''i'' angle_dim (arg_i args)) (\<lambda>_.
     and_then (check_unit ''Omega'' angle_dim (arg_Omega args)) (\<lambda>_.
     check_unit ''M0'' angle_dim (arg_M0 args))))))"

text \<open>One round of the loop of lines 114 to 117.\<close>

definition required :: "string \<Rightarrow> quantity option \<Rightarrow> error + quantity" where
  "required name arg =
     (case arg of
        None \<Rightarrow> Inl (ValueError (''You must specify '' @ name @ ''.''))
      | Some q \<Rightarrow> Inr q)"

text \<open>
  \<^verbatim>\<open>e < 0 or e >= 1\<close> (line 126), in the order of evaluation: \<^verbatim>\<open>None\<close> cannot be
  compared with a number; a quantity of any unit can be compared with zero, and with 1
  only if it is dimensionless.
\<close>

definition none_comparison_message :: string where
  "none_comparison_message =
     [CHR 0x27] @ ''<'' @ [CHR 0x27] @ '' not supported between instances of ''
       @ [CHR 0x27] @ ''NoneType'' @ [CHR 0x27] @ '' and '' @ [CHR 0x27] @ ''int'' @ [CHR 0x27]"

definition check_e :: "quantity option \<Rightarrow> error + quantity" where
  "check_e arg =
     (case arg of
        None \<Rightarrow> Inl (TypeError none_comparison_message)
      | Some q \<Rightarrow>
          if qvalue q < 0 then Inl (ValueError ''Eccentricity `e` must be: 0 <= e < 1'')
          else if qdim q \<noteq> dimensionless then Inl (UnitsError ''e'')
          else if 1 \<le> qvalue q
               then Inl (ValueError ''Eccentricity `e` must be: 0 <= e < 1'')
               else Inr q)"

definition inclination_message :: "quantity \<Rightarrow> string" where
  "inclination_message q =
     ''Inclination `i` must be between 0'' @ [CHR 0xBA] @ '' and 180'' @ [CHR 0xBA]
       @ '', you passed in i='' @ format_3f_deg q"

text \<open>Lines 101 to 111: the defaults of \<^verbatim>\<open>M0\<close> and \<^verbatim>\<open>t0\<close>.\<close>

definition default_M0 :: "quantity option \<Rightarrow> quantity" where
  "default_M0 M0 = (case M0 of None \<Rightarrow> Quantity 0 angle_dim | Some m \<Rightarrow> m)"

definition default_t0 :: "t0_arg option \<Rightarrow> time" where
  "default_t0 t0 =
     (case t0 of
        None \<Rightarrow> Time_str ''J2000''
      | Some (T0_Time t) \<Rightarrow> t
      | Some (T0_number x) \<Rightarrow> Time_val x ''mjd'' ''tcb'')"

text \<open>Lines 134 to 141: the assignments to \<^verbatim>\<open>self\<close>.\<close>

definition assign_attributes ::
    "elements_obj \<Rightarrow> quantity option \<Rightarrow> quantity \<Rightarrow> quantity \<Rightarrow> quantity \<Rightarrow> quantity
       \<Rightarrow> quantity \<Rightarrow> quantity \<Rightarrow> time \<Rightarrow> elements_obj" where
  "assign_attributes self a P e omega i Omega M0 t0 =
     self
       \<lparr>priv_a := Some (case a of None \<Rightarrow> Quantity 1 dimensionless | Some x \<Rightarrow> x),
        priv_P := Some P,
        priv_e := Some (Quantity (qvalue e) dimensionless),
        priv_omega := Some (wrap_angle omega),
        priv_i := Some i,
        priv_Omega := Some (wrap_angle Omega),
        priv_M0 := Some M0,
        inst_t0 := Some t0\<rparr>"

text \<open>Lines 101 to 141: defaults, validation, assignments.\<close>

definition KeplerElements_set_attributes ::
    "elements_obj \<Rightarrow> 'x kepler_args_scheme \<Rightarrow> error + elements_obj" where
  "KeplerElements_set_attributes self args =
     (let M0 = default_M0 (arg_M0 args);
          t0 = default_t0 (arg_t0 args)
      in
      and_then (required ''P'' (arg_P args)) (\<lambda>P.
      and_then (required ''omega'' (arg_omega args)) (\<lambda>omega.
      and_then (required ''i'' (arg_i args)) (\<lambda>i.
      and_then (required ''Omega'' (arg_Omega args)) (\<lambda>Omega.
      if qvalue P < 0 then Inl (ValueError ''Period `P` must be positive.'')
      else if (case arg_a args of None \<Rightarrow> False | Some a \<Rightarrow> qvalue a < 0)
        then Inl (ValueError ''Semi-major axis `a` must be positive.'')
      else
      and_then (check_e (arg_e args)) (\<lambda>e.
      if qvalue i < 0 \<or> 180 < qvalue i then Inl (ValueError (inclination_message i))
      else Inr (assign_attributes self (arg_a args) P e omega i Omega M0 t0)))))))"

text \<open>The whole initialiser: decorator, body, then the base class (line 145).\<close>

definition KeplerElements_init ::
    "elements_obj \<Rightarrow> 'x kepler_args_scheme \<Rightarrow> error + elements_obj" where
  "KeplerElements_init self args =
     and_then (KeplerElements_quantity_input args) (\<lambda>_.
     and_then (KeplerElements_set_attributes self args) (\<lambda>self'.
     OrbitalElements_init self' (arg_units args)))"

text \<open>The call \<^verbatim>\<open>KeplerElements(...)\<close>.\<close>

definition KeplerElements_new :: "'x kepler_args_scheme \<Rightarrow> error + elements_obj" where
  "KeplerElements_new args = KeplerElements_init (new_instance KeplerElements) args"

subsection \<open>\<^verbatim>\<open>TwoBodyKeplerElements.__init__\<close> (lines 171 to 192)\<close>

record twobody_args = kepler_args +
  arg_m1 :: "quantity option"
  arg_m2 :: "quantity option"

text \<open>The defaults of the signature (lines 173 to 175): here \<^verbatim>\<open>e=None\<close>.\<close>

definition TwoBodyKeplerElements_defaults :: twobody_args where
  "TwoBodyKeplerElements_defaults =
     \<lparr>arg_P = None, arg_a = None, arg_e = None,
      arg_omega = None, arg_i = None, arg_Omega = None, arg_M0 = None,
      arg_t0 = None, arg_units = None, arg_m1 = None, arg_m2 = None\<rparr>"

text \<open>The decorator of lines 171 and 172, in the order of the signature.\<close>

definition TwoBodyKeplerElements_quantity_input :: "twobody_args \<Rightarrow> error + unit" where
  "TwoBodyKeplerElements_quantity_input args =
     and_then (check_unit ''a'' length_dim (arg_a args)) (\<lambda>_.
     and_then (check_unit ''P'' time_dim (arg_P args)) (\<lambda>_.
     and_then (check_unit ''m1'' mass_dim (arg_m1 args)) (\<lambda>_.
     and_then (check_unit ''m2'' mass_dim (arg_m2 args)) (\<lambda>_.
     and_then (check_unit ''omega'' angle_dim (arg_omega args)) (\<lambda>_.
     and_then (check_unit ''i'' angle_dim (arg_i args)) (\<lambda>_.
     and_then (check_unit ''Omega'' angle_dim (arg_Omega args)) (\<lambda>_.
     check_unit ''M0'' angle_dim (arg_M0 args))))))))"

text \<open>
  \<^verbatim>\<open>a_m_to_P\<close> and \<^verbatim>\<open>P_m_to_a\<close> come from \<^verbatim>\<open>twobody/transforms.py\<close>, which is not
  among the sources: they are parameters of the model. The first may be handed
  \<^verbatim>\<open>None\<close> (when neither \<^verbatim>\<open>P\<close> nor \<^verbatim>\<open>a\<close> is given), the second never is.
\<close>

type_synonym a_m_to_P_fn = "quantity option \<Rightarrow> quantity \<Rightarrow> error + quantity"
type_synonym P_m_to_a_fn = "quantity \<Rightarrow> quantity \<Rightarrow> error + quantity"

text \<open>
  Lines 177 to 188, up to the call of the inherited initialiser: the keyword arguments
  that \<^verbatim>\<open>super().__init__\<close> receives.
\<close>

definition TwoBodyKeplerElements_super_args ::
    "a_m_to_P_fn \<Rightarrow> P_m_to_a_fn \<Rightarrow> twobody_args \<Rightarrow> error + kepler_args" where
  "TwoBodyKeplerElements_super_args a_m_to_P P_m_to_a args =
     (case (arg_m1 args, arg_m2 args) of
        (Some m1, Some m2) \<Rightarrow>
          and_then
            (case arg_P args of
               None \<Rightarrow>
                 and_then (q_add m1 m2) (\<lambda>m.
                 and_then (a_m_to_P (arg_a args) m) (\<lambda>P.
                 q_to time_dim P))
             | Some P \<Rightarrow> Inr P) (\<lambda>P.
          and_then
            (case arg_a args of
               None \<Rightarrow>
                 and_then (q_add m1 m2) (\<lambda>m.
                 and_then (P_m_to_a P m) (\<lambda>a.
                 q_to length_dim a))
             | Some a \<Rightarrow> Inr a) (\<lambda>a.
          Inr \<lparr>arg_P = Some P, arg_a = Some a, arg_e = arg_e args,
               arg_omega = arg_omega args, arg_i = arg_i args, arg_Omega = arg_omega args,
               arg_M0 = arg_M0 args, arg_t0 = arg_t0 args, arg_units = arg_units args\<rparr>))
      | _ \<Rightarrow> Inl (ValueError ''You must specify m1 and m2.''))"

text \<open>
  Line 190, \<^verbatim>\<open>self.m1 = m1\<close>: \<^verbatim>\<open>m1\<close> is in \<^verbatim>\<open>names\<close> of the class, so the metaclass
  has made it a property with a getter only (lines 28, 29 and 37), and the assignment
  raises. Lines 191 and 192 are never reached.
\<close>

definition assign_m1 :: "elements_obj \<Rightarrow> quantity option \<Rightarrow> error + elements_obj" where
  "assign_m1 self m1 = Inl (AttributeError (''can'' @ [CHR 0x27] @ ''t set attribute''))"

definition TwoBodyKeplerElements_body ::
    "a_m_to_P_fn \<Rightarrow> P_m_to_a_fn \<Rightarrow> elements_obj \<Rightarrow> twobody_args \<Rightarrow> error + elements_obj" where
  "TwoBodyKeplerElements_body a_m_to_P P_m_to_a self args =
     and_then (TwoBodyKeplerElements_super_args a_m_to_P P_m_to_a args) (\<lambda>kargs.
     and_then (KeplerElements_init self kargs) (\<lambda>self'.
     assign_m1 self' (arg_m1 args)))"

definition TwoBodyKeplerElements_init ::
    "a_m_to_P_fn \<Rightarrow> P_m_to_a_fn \<Rightarrow> elements_obj \<Rightarrow> twobody_args \<Rightarrow> error + elements_obj" where
  "TwoBodyKeplerElements_init a_m_to_P P_m_to_a self args =
     and_then (TwoBodyKeplerElements_quantity_input args) (\<lambda>_.
     TwoBodyKeplerElements_body a_m_to_P P_m_to_a self args)"

text \<open>The call \<^verbatim>\<open>TwoBodyKeplerElements(...)\<close>.\<close>

definition TwoBodyKeplerElements_new ::
    "a_m_to_P_fn \<Rightarrow> P_m_to_a_fn \<Rightarrow> twobody_args \<Rightarrow> error + elements_obj" where
  "TwoBodyKeplerElements_new a_m_to_P P_m_to_a args =
     TwoBodyKeplerElements_init a_m_to_P P_m_to_a (new_instance TwoBodyKeplerElements) args"

subsection \<open>\<^verbatim>\<open>TwoBodyKeplerElements.get_component\<close> (lines 194 to 213)\<close>

text \<open>The values the method may be handed, and \<^verbatim>\<open>str\<close> on them.\<close>

datatype pyarg = PyInt int | PyStr string | PyBool bool | PyNone

fun py_str :: "pyarg \<Rightarrow> string" where
  "py_str (PyInt k) = (if k < 0 then ''-'' @ show_nat (nat (- k)) else show_nat (nat k))"
| "py_str (PyStr s) = s"
| "py_str (PyBool b) = (if b then ''True'' else ''False'')"
| "py_str PyNone = ''None''"

definition read_m_tot :: "elements_obj \<Rightarrow> error + quantity" where
  "read_m_tot self =
     (case inst_m_tot self of None \<Rightarrow> Inl (AttributeError ''m_tot'') | Some m \<Rightarrow> Inr m)"

definition read_t0 :: "elements_obj \<Rightarrow> error + time" where
  "read_t0 self =
     (case inst_t0 self of None \<Rightarrow> Inl (AttributeError ''t0'') | Some t \<Rightarrow> Inr t)"

definition invalid_input_message :: "string \<Rightarrow> string" where
  "invalid_input_message num =
     ''Invalid input '' @ [CHR 0x27] @ num @ [CHR 0x27] @ '' - must be ''
       @ [CHR 0x27] @ ''1'' @ [CHR 0x27] @ '' or '' @ [CHR 0x27] @ ''2'' @ [CHR 0x27]"

text \<open>
  \<^verbatim>\<open>np.pi*u.radian\<close> is the half turn; added to an angle held in degrees it is 180.
  Attributes are read in the order in which Python evaluates the expressions.
\<close>

definition get_component :: "elements_obj \<Rightarrow> pyarg \<Rightarrow> error + elements_obj" where
  "get_component self num_in =
     (let num = py_str num_in in
      and_then
        (if num = ''1'' then
           and_then (getter ''m2'' self) (\<lambda>m2.
           and_then (read_m_tot self) (\<lambda>m_tot.
           and_then (q_div m2 m_tot) (\<lambda>ratio.
           and_then (getter ''a'' self) (\<lambda>a.
           and_then (getter ''omega'' self) (\<lambda>omega.
           Inr (q_mul ratio a, omega))))))
         else if num = ''2'' then
           and_then (getter ''m1'' self) (\<lambda>m1.
           and_then (read_m_tot self) (\<lambda>m_tot.
           and_then (q_div m1 m_tot) (\<lambda>ratio.
           and_then (getter ''a'' self) (\<lambda>a.
           and_then (getter ''omega'' self) (\<lambda>omega.
           and_then (q_add omega (Quantity 180 angle_dim)) (\<lambda>omega'.
           Inr (q_mul ratio a, omega')))))))
         else Inl (ValueError (invalid_input_message num)))
        (\<lambda>(a, omega).
           and_then (getter ''P'' self) (\<lambda>P.
           and_then (getter ''e'' self) (\<lambda>e.
           and_then (getter ''i'' self) (\<lambda>i.
           and_then (getter ''Omega'' self) (\<lambda>Omega.
           and_then (getter ''M0'' self) (\<lambda>M0.
           and_then (read_t0 self) (\<lambda>t0.
           KeplerElements_new
             \<lparr>arg_P = Some P, arg_a = Some a, arg_e = Some e, arg_omega = Some omega,
              arg_i = Some i, arg_Omega = Some Omega, arg_M0 = Some M0,
              arg_t0 = Some (T0_Time t0), arg_units = None\<rparr>))))))))"

section \<open>The calls of the test script (the file test-api.py under twobody, tests)\<close>

text \<open>
  Lines 15 to 17: \<^verbatim>\<open>KeplerElements(a=1.5*u.au, e=0.5, P=1.*u.year, omega=67*u.deg,
  i=21.*u.deg, Omega=33*u.deg, M0=53*u.deg, t0=59112.1423)\<close>. A Julian year is 365.25 days.
\<close>

definition test_api_kepler_args :: kepler_args where
  "test_api_kepler_args =
     KeplerElements_defaults
       \<lparr>arg_P := Some (Quantity (1461 / 4) time_dim),
        arg_a := Some (Quantity (3 / 2) length_dim),
        arg_e := Some (Quantity (1 / 2) dimensionless),
        arg_omega := Some (Quantity 67 angle_dim),
        arg_i := Some (Quantity 21 angle_dim),
        arg_Omega := Some (Quantity 33 angle_dim),
        arg_M0 := Some (Quantity 53 angle_dim),
        arg_t0 := Some (T0_number (591121423 / 10000))\<rparr>"

text \<open>The object that this call returns.\<close>

definition test_api_kepler_obj :: elements_obj where
  "test_api_kepler_obj =
     \<lparr>inst_cls = KeplerElements,
      inst_units = Some default_units,
      priv_a = Some (Quantity (3 / 2) length_dim),
      priv_P = Some (Quantity (1461 / 4) time_dim),
      priv_e = Some (Quantity (1 / 2) dimensionless),
      priv_omega = Some (Quantity 67 angle_dim),
      priv_i = Some (Quantity 21 angle_dim),
      priv_Omega = Some (Quantity 33 angle_dim),
      priv_M0 = Some (Quantity 53 angle_dim),
      priv_m1 = None,
      priv_m2 = None,
      inst_t0 = Some (Time_val (591121423 / 10000) ''mjd'' ''tcb''),
      inst_m_tot = None\<rparr>"

text \<open>
  Lines 48 to 51: \<^verbatim>\<open>TwoBodyKeplerElements(m1=1*u.Msun, m2=2*u.Msun, a=1.5*u.au, e=0.5,
  omega=67*u.deg, i=21.*u.deg, Omega=33*u.deg, M0=53*u.deg, t0=59112.1423)\<close>.
\<close>

definition test_api_twobody_args :: twobody_args where
  "test_api_twobody_args =
     TwoBodyKeplerElements_defaults
       \<lparr>arg_a := Some (Quantity (3 / 2) length_dim),
        arg_e := Some (Quantity (1 / 2) dimensionless),
        arg_omega := Some (Quantity 67 angle_dim),
        arg_i := Some (Quantity 21 angle_dim),
        arg_Omega := Some (Quantity 33 angle_dim),
        arg_M0 := Some (Quantity 53 angle_dim),
        arg_t0 := Some (T0_number (591121423 / 10000)),
        arg_m1 := Some (Quantity 1 mass_dim),
        arg_m2 := Some (Quantity 2 mass_dim)\<rparr>"

text \<open>
  Lines 72 to 75: the same system given by its period,
  \<^verbatim>\<open>TwoBodyKeplerElements(m1=1*u.Msun, m2=2*u.Msun, P=1.*u.year, e=0.5, ...)\<close>.
\<close>

definition test_api_twobody_args_P :: twobody_args where
  "test_api_twobody_args_P =
     test_api_twobody_args\<lparr>arg_a := None, arg_P := Some (Quantity (1461 / 4) time_dim)\<rparr>"

text \<open>
  A two-body object as \<^verbatim>\<open>get_component\<close> reads it: the elements of the call above
  together with \<^verbatim>\<open>_m1\<close>, \<^verbatim>\<open>_m2\<close> and \<^verbatim>\<open>m_tot\<close>.
\<close>

definition populated_twobody_obj :: elements_obj where
  "populated_twobody_obj =
     test_api_kepler_obj
       \<lparr>inst_cls := TwoBodyKeplerElements,
        priv_m1 := Some (Quantity 1 mass_dim),
        priv_m2 := Some (Quantity 2 mass_dim),
        inst_m_tot := Some (Quantity 3 mass_dim)\<rparr>"

section \<open>Auxiliary facts\<close>

lemmas dim_defs = dimensionless_def length_dim_def time_dim_def mass_dim_def angle_dim_def

lemma and_then_Inr_iff: "and_then m f = Inr y \<longleftrightarrow> (\<exists>x. m = Inr x \<and> f x = Inr y)"
  by (cases m) simp_all

lemma required_Inr_iff: "required name arg = Inr q \<longleftrightarrow> arg = Some q"
  by (cases arg) (simp_all add: required_def)

lemma required_Some: "required name (Some q) = Inr q"
  by (simp add: required_def)

lemma check_unit_Inr_iff:
  "check_unit name d arg = Inr u \<longleftrightarrow> (case arg of None \<Rightarrow> True | Some q \<Rightarrow> qdim q = d)"
  by (cases arg) (simp_all add: check_unit_def)

lemma check_e_Inr_iff:
  "check_e arg = Inr q \<longleftrightarrow>
     arg = Some q \<and> qdim q = dimensionless \<and> 0 \<le> qvalue q \<and> qvalue q < 1"
  by (cases arg) (auto simp: check_e_def)

text \<open>The base initialiser on an object of each class, after lines 134 to 141.\<close>

lemma OrbitalElements_init_Kepler:
  assumes "inst_cls self = KeplerElements"
  shows "OrbitalElements_init (assign_attributes self a P e omega i Omega M0 t0) units =
     Inr ((assign_attributes self a P e omega i Omega M0 t0)
            \<lparr>inst_units := Some (resolve_units units)\<rparr>)"
  using assms
  by (simp add: OrbitalElements_init_def lookup_private_def assign_attributes_def Let_def)

lemma OrbitalElements_init_TwoBody:
  assumes "inst_cls self = TwoBodyKeplerElements" and "priv_m1 self = None"
  shows "OrbitalElements_init (assign_attributes self a P e omega i Omega M0 t0) units =
     Inl (AttributeError ''Invalid class definition!'')"
  using assms
  by (simp add: OrbitalElements_init_def lookup_private_def assign_attributes_def Let_def)

text \<open>When the body of \<^verbatim>\<open>KeplerElements.__init__\<close> gets past its checks.\<close>

lemma set_attributes_Inr_iff:
  "KeplerElements_set_attributes self args = Inr self' \<longleftrightarrow>
     (\<exists>P omega i Omega e.
        arg_P args = Some P \<and> arg_omega args = Some omega \<and> arg_i args = Some i \<and>
        arg_Omega args = Some Omega \<and> arg_e args = Some e \<and>
        0 \<le> qvalue P \<and> (case arg_a args of None \<Rightarrow> True | Some a \<Rightarrow> 0 \<le> qvalue a) \<and>
        qdim e = dimensionless \<and> 0 \<le> qvalue e \<and> qvalue e < 1 \<and>
        0 \<le> qvalue i \<and> qvalue i \<le> 180 \<and>
        self' = assign_attributes self (arg_a args) P e omega i Omega
                  (default_M0 (arg_M0 args)) (default_t0 (arg_t0 args)))"
  by (cases "arg_a args")
     (auto simp: KeplerElements_set_attributes_def Let_def and_then_Inr_iff required_Inr_iff
        check_e_Inr_iff not_less)

lemma quantity_input_Inr_iff:
  "KeplerElements_quantity_input args = Inr u \<longleftrightarrow>
     (case arg_P args of None \<Rightarrow> True | Some q \<Rightarrow> qdim q = time_dim) \<and>
     (case arg_a args of None \<Rightarrow> True | Some q \<Rightarrow> qdim q = length_dim) \<and>
     (case arg_omega args of None \<Rightarrow> True | Some q \<Rightarrow> qdim q = angle_dim) \<and>
     (case arg_i args of None \<Rightarrow> True | Some q \<Rightarrow> qdim q = angle_dim) \<and>
     (case arg_Omega args of None \<Rightarrow> True | Some q \<Rightarrow> qdim q = angle_dim) \<and>
     (case arg_M0 args of None \<Rightarrow> True | Some q \<Rightarrow> qdim q = angle_dim)"
  by (simp add: KeplerElements_quantity_input_def and_then_Inr_iff check_unit_Inr_iff)

lemma KeplerElements_new_Inr_iff:
  "KeplerElements_new args = Inr obj \<longleftrightarrow>
     KeplerElements_quantity_input args = Inr () \<and>
     (\<exists>self'. KeplerElements_set_attributes (new_instance KeplerElements) args = Inr self' \<and>
        obj = self'\<lparr>inst_units := Some (resolve_units (arg_units args))\<rparr>)"
  by (auto simp: KeplerElements_new_def KeplerElements_init_def and_then_Inr_iff
       set_attributes_Inr_iff OrbitalElements_init_Kepler new_instance_def)

text \<open>The first call of the test script returns the object written out above.\<close>

lemma test_api_kepler_new: "KeplerElements_new test_api_kepler_args = Inr test_api_kepler_obj"
  by (simp add: KeplerElements_new_Inr_iff quantity_input_Inr_iff set_attributes_Inr_iff
       test_api_kepler_args_def test_api_kepler_obj_def KeplerElements_defaults_def
       assign_attributes_def new_instance_def default_M0_def default_t0_def resolve_units_def
       wrap_angle_def wrap_at_360_def dim_defs)

text \<open>Replacing the period of an accepted call: only a negative period is refused.\<close>

lemma KeplerElements_new_period:
  assumes "KeplerElements_new args = Inr obj"
  shows "KeplerElements_new (args\<lparr>arg_P := Some (Quantity p time_dim)\<rparr>) =
     (if p < 0 then Inl (ValueError ''Period `P` must be positive.'')
      else Inr (obj\<lparr>priv_P := Some (Quantity p time_dim)\<rparr>))"
proof -
  from assms have "KeplerElements_quantity_input args = Inr ()"
    by (simp add: KeplerElements_new_Inr_iff)
  then have qi: "KeplerElements_quantity_input (args\<lparr>arg_P := Some (Quantity p time_dim)\<rparr>) = Inr ()"
    by (simp add: quantity_input_Inr_iff)
  from assms obtain P omega i Omega e where f:
    "arg_omega args = Some omega" "arg_i args = Some i"
    "arg_Omega args = Some Omega" "arg_e args = Some e"
    "(case arg_a args of None \<Rightarrow> True | Some a \<Rightarrow> 0 \<le> qvalue a)"
    "qdim e = dimensionless" "0 \<le> qvalue e" "qvalue e < 1"
    "0 \<le> qvalue i" "qvalue i \<le> 180"
    and obj: "obj = (assign_attributes (new_instance KeplerElements) (arg_a args) P e omega i Omega
                  (default_M0 (arg_M0 args)) (default_t0 (arg_t0 args)))
                  \<lparr>inst_units := Some (resolve_units (arg_units args))\<rparr>"
    by (auto simp: KeplerElements_new_Inr_iff set_attributes_Inr_iff)
  show ?thesis
  proof (cases "p < 0")
    case True
    then show ?thesis
      using f
      by (simp add: KeplerElements_new_def KeplerElements_init_def qi
           KeplerElements_set_attributes_def required_Some Let_def)
  next
    case False
    then show ?thesis
      using f
      by (simp add: KeplerElements_new_Inr_iff qi set_attributes_Inr_iff obj
           assign_attributes_def)
  qed
qed

text \<open>The rounding of the format code is to the nearest thousandth.\<close>

lemma round_half_even_close:
  assumes "0 \<le> y"
  shows "\<bar>real (round_half_even y) - y\<bar> \<le> 1 / 2"
proof -
  have f0: "0 \<le> \<lfloor>y\<rfloor>" using assms by simp
  have lo: "of_int \<lfloor>y\<rfloor> \<le> y" by simp
  have hi: "y < of_int \<lfloor>y\<rfloor> + 1" by linarith
  have r0: "real (nat \<lfloor>y\<rfloor>) = of_int \<lfloor>y\<rfloor>" using f0 by simp
  have r1: "real (nat (\<lfloor>y\<rfloor> + 1)) = of_int \<lfloor>y\<rfloor> + 1" using f0 by simp
  show ?thesis
    unfolding round_half_even_def Let_def
    using lo hi r0 r1 by (simp split: if_splits) 
qed

lemma wrap_at_360_range: "0 \<le> wrap_at_360 x \<and> wrap_at_360 x < 360"
proof -
  have lo: "of_int \<lfloor>x / 360\<rfloor> \<le> x / 360" by (rule of_int_floor_le)
  have hi: "x / 360 < of_int \<lfloor>x / 360\<rfloor> + 1" by (rule real_of_int_floor_add_one_gt)
  show ?thesis
    unfolding wrap_at_360_def using lo hi by linarith
qed

lemma format_3f_example: "format_3f (1801 / 10) = ''180.100''"
  by (simp add: format_3f_def round_half_even_def Let_def show_nat.simps digit_char_def)

lemma format_3f_negative_example: "format_3f (- (1 / 2)) = ''-0.500''"
  by (simp add: format_3f_def round_half_even_def Let_def show_nat.simps digit_char_def)

text \<open>Facts about the two-body initialiser.\<close>

lemma twobody_quantity_input_Inr_iff:
  "TwoBodyKeplerElements_quantity_input args = Inr u \<longleftrightarrow>
     (case arg_a args of None \<Rightarrow> True | Some q \<Rightarrow> qdim q = length_dim) \<and>
     (case arg_P args of None \<Rightarrow> True | Some q \<Rightarrow> qdim q = time_dim) \<and>
     (case arg_m1 args of None \<Rightarrow> True | Some q \<Rightarrow> qdim q = mass_dim) \<and>
     (case arg_m2 args of None \<Rightarrow> True | Some q \<Rightarrow> qdim q = mass_dim) \<and>
     (case arg_omega args of None \<Rightarrow> True | Some q \<Rightarrow> qdim q = angle_dim) \<and>
     (case arg_i args of None \<Rightarrow> True | Some q \<Rightarrow> qdim q = angle_dim) \<and>
     (case arg_Omega args of None \<Rightarrow> True | Some q \<Rightarrow> qdim q = angle_dim) \<and>
     (case arg_M0 args of None \<Rightarrow> True | Some q \<Rightarrow> qdim q = angle_dim)"
  by (simp add: TwoBodyKeplerElements_quantity_input_def and_then_Inr_iff check_unit_Inr_iff)

text \<open>The inherited initialiser on a fresh two-body object never returns.\<close>

lemma KeplerElements_init_TwoBody:
  "KeplerElements_init (new_instance TwoBodyKeplerElements) kargs \<noteq> Inr obj"
  by (auto simp: KeplerElements_init_def and_then_Inr_iff set_attributes_Inr_iff
        OrbitalElements_init_TwoBody new_instance_def)

lemma KeplerElements_init_TwoBody_raises:
  assumes "KeplerElements_quantity_input kargs = Inr ()"
    and "KeplerElements_set_attributes (new_instance TwoBodyKeplerElements) kargs = Inr self'"
  shows "KeplerElements_init (new_instance TwoBodyKeplerElements) kargs =
           Inl (AttributeError ''Invalid class definition!'')"
proof -
  from assms(2) obtain P omega i Omega e where
    s: "self' = assign_attributes (new_instance TwoBodyKeplerElements) (arg_a kargs) P e omega i
                  Omega (default_M0 (arg_M0 kargs)) (default_t0 (arg_t0 kargs))"
    by (auto simp: set_attributes_Inr_iff)
  have "OrbitalElements_init self' (arg_units kargs) =
          Inl (AttributeError ''Invalid class definition!'')"
    unfolding s by (rule OrbitalElements_init_TwoBody) (simp_all add: new_instance_def)
  then show ?thesis
    by (simp add: KeplerElements_init_def assms)
qed

lemma TwoBodyKeplerElements_new_never:
  "TwoBodyKeplerElements_new a_m_to_P P_m_to_a args \<noteq> Inr obj"
  by (simp add: TwoBodyKeplerElements_new_def TwoBodyKeplerElements_init_def
        TwoBodyKeplerElements_body_def and_then_Inr_iff KeplerElements_init_TwoBody)

text \<open>A call that gives masses, semi-major axis and the other elements, and leaves the
  period to \<^verbatim>\<open>a_m_to_P\<close>.\<close>

lemma TwoBodyKeplerElements_new_from_a:
  assumes h: "a_m_to_P (Some (Quantity a length_dim)) (Quantity (m1 + m2) mass_dim)
               = Inr (Quantity p time_dim)"
    and p: "0 \<le> p" and a: "0 \<le> a"
  shows "TwoBodyKeplerElements_new a_m_to_P P_m_to_a
           (test_api_twobody_args
              \<lparr>arg_a := Some (Quantity a length_dim),
               arg_m1 := Some (Quantity m1 mass_dim),
               arg_m2 := Some (Quantity m2 mass_dim)\<rparr>)
         = Inl (AttributeError ''Invalid class definition!'')"
proof -
  let ?args = "test_api_twobody_args
              \<lparr>arg_a := Some (Quantity a length_dim),
               arg_m1 := Some (Quantity m1 mass_dim),
               arg_m2 := Some (Quantity m2 mass_dim)\<rparr>"
  let ?kargs = "\<lparr>arg_P = Some (Quantity p time_dim), arg_a = Some (Quantity a length_dim),
       arg_e = Some (Quantity (1 / 2) dimensionless),
       arg_omega = Some (Quantity 67 angle_dim), arg_i = Some (Quantity 21 angle_dim),
       arg_Omega = Some (Quantity 67 angle_dim), arg_M0 = Some (Quantity 53 angle_dim),
       arg_t0 = Some (T0_number (591121423 / 10000)), arg_units = None\<rparr>"
  have qi: "TwoBodyKeplerElements_quantity_input ?args = Inr ()"
    by (simp add: twobody_quantity_input_Inr_iff test_api_twobody_args_def
          TwoBodyKeplerElements_defaults_def)
  have sa: "TwoBodyKeplerElements_super_args a_m_to_P P_m_to_a ?args = Inr ?kargs"
    using h
    by (simp add: TwoBodyKeplerElements_super_args_def test_api_twobody_args_def
          TwoBodyKeplerElements_defaults_def q_add_def q_to_def)
  have kqi: "KeplerElements_quantity_input ?kargs = Inr ()"
    by (simp add: quantity_input_Inr_iff)
  have "\<exists>self'. KeplerElements_set_attributes (new_instance TwoBodyKeplerElements) ?kargs = Inr self'"
    using p a by (simp add: set_attributes_Inr_iff)
  then have "KeplerElements_init (new_instance TwoBodyKeplerElements) ?kargs =
           Inl (AttributeError ''Invalid class definition!'')"
    using KeplerElements_init_TwoBody_raises [OF kqi] by blast
  then show ?thesis
    by (simp add: TwoBodyKeplerElements_new_def TwoBodyKeplerElements_init_def
          TwoBodyKeplerElements_body_def qi sa)
qed

lemma TwoBodyKeplerElements_new_from_P:
  assumes h: "P_m_to_a (Quantity p time_dim) (Quantity (m1 + m2) mass_dim)
               = Inr (Quantity a length_dim)"
    and p: "0 \<le> p" and a: "0 \<le> a"
  shows "TwoBodyKeplerElements_new a_m_to_P P_m_to_a
           (test_api_twobody_args
              \<lparr>arg_P := Some (Quantity p time_dim),
               arg_a := None,
               arg_m1 := Some (Quantity m1 mass_dim),
               arg_m2 := Some (Quantity m2 mass_dim)\<rparr>)
         = Inl (AttributeError ''Invalid class definition!'')"
proof -
  let ?args = "test_api_twobody_args
              \<lparr>arg_P := Some (Quantity p time_dim),
               arg_a := None,
               arg_m1 := Some (Quantity m1 mass_dim),
               arg_m2 := Some (Quantity m2 mass_dim)\<rparr>"
  let ?kargs = "\<lparr>arg_P = Some (Quantity p time_dim), arg_a = Some (Quantity a length_dim),
       arg_e = Some (Quantity (1 / 2) dimensionless),
       arg_omega = Some (Quantity 67 angle_dim), arg_i = Some (Quantity 21 angle_dim),
       arg_Omega = Some (Quantity 67 angle_dim), arg_M0 = Some (Quantity 53 angle_dim),
       arg_t0 = Some (T0_number (591121423 / 10000)), arg_units = None\<rparr>"
  have qi: "TwoBodyKeplerElements_quantity_input ?args = Inr ()"
    by (simp add: twobody_quantity_input_Inr_iff test_api_twobody_args_def
          TwoBodyKeplerElements_defaults_def)
  have sa: "TwoBodyKeplerElements_super_args a_m_to_P P_m_to_a ?args = Inr ?kargs"
    using h
    by (simp add: TwoBodyKeplerElements_super_args_def test_api_twobody_args_def
          TwoBodyKeplerElements_defaults_def q_add_def q_to_def)
  have kqi: "KeplerElements_quantity_input ?kargs = Inr ()"
    by (simp add: quantity_input_Inr_iff)
  have "\<exists>self'. KeplerElements_set_attributes (new_instance TwoBodyKeplerElements) ?kargs = Inr self'"
    using p a by (simp add: set_attributes_Inr_iff)
  then have "KeplerElements_init (new_instance TwoBodyKeplerElements) ?kargs =
           Inl (AttributeError ''Invalid class definition!'')"
    using KeplerElements_init_TwoBody_raises [OF kqi] by blast
  then show ?thesis
    by (simp add: TwoBodyKeplerElements_new_def TwoBodyKeplerElements_init_def
          TwoBodyKeplerElements_body_def qi sa)
qed

lemma test_api_twobody_args_eq:
  "test_api_twobody_args
              \<lparr>arg_a := Some (Quantity (3 / 2) length_dim),
               arg_m1 := Some (Quantity 1 mass_dim),
               arg_m2 := Some (Quantity 2 mass_dim)\<rparr> = test_api_twobody_args"
  by (simp add: test_api_twobody_args_def)

text \<open>The arguments handed to the inherited initialiser do not depend on \<^verbatim>\<open>Omega\<close>.\<close>

lemma super_args_ignores_Omega:
  "TwoBodyKeplerElements_super_args a_m_to_P P_m_to_a (args\<lparr>arg_Omega := X\<rparr>)
     = TwoBodyKeplerElements_super_args a_m_to_P P_m_to_a args"
  by (simp add: TwoBodyKeplerElements_super_args_def split: option.splits)

lemma super_args_Omega:
  assumes "TwoBodyKeplerElements_super_args a_m_to_P P_m_to_a args = Inr kargs"
  shows "arg_Omega kargs = arg_omega args" and "arg_omega kargs = arg_omega args"
  using assms
  by (auto simp: TwoBodyKeplerElements_super_args_def and_then_Inr_iff
        split: option.splits)

text \<open>
  \<^verbatim>\<open>get_component\<close> on an object that holds the attributes it reads: the semi-major
  axes are 1 and 1/2 AU, in the ratio of the masses 2 and 1, and the second argument of
  pericenter is turned by half a circle.
\<close>

lemma get_component_populated_1:
  "get_component populated_twobody_obj (PyStr ''1'')
     = Inr (test_api_kepler_obj\<lparr>priv_a := Some (Quantity 1 length_dim)\<rparr>)"
proof -
  have g: "getter ''m2'' populated_twobody_obj = Inr (Quantity 2 mass_dim)"
    "read_m_tot populated_twobody_obj = Inr (Quantity 3 mass_dim)"
    "getter ''a'' populated_twobody_obj = Inr (Quantity (3 / 2) length_dim)"
    "getter ''omega'' populated_twobody_obj = Inr (Quantity 67 angle_dim)"
    "getter ''P'' populated_twobody_obj = Inr (Quantity (1461 / 4) time_dim)"
    "getter ''e'' populated_twobody_obj = Inr (Quantity (1 / 2) dimensionless)"
    "getter ''i'' populated_twobody_obj = Inr (Quantity 21 angle_dim)"
    "getter ''Omega'' populated_twobody_obj = Inr (Quantity 33 angle_dim)"
    "getter ''M0'' populated_twobody_obj = Inr (Quantity 53 angle_dim)"
    "read_t0 populated_twobody_obj = Inr (Time_val (591121423 / 10000) ''mjd'' ''tcb'')"
    by (simp_all add: getter_def read_m_tot_def read_t0_def lookup_private_def decompose_def
          populated_twobody_obj_def test_api_kepler_obj_def)
  have q: "q_div (Quantity 2 mass_dim) (Quantity 3 mass_dim) = Inr (Quantity (2 / 3) dimensionless)"
    "q_mul (Quantity (2 / 3) dimensionless) (Quantity (3 / 2) length_dim) = Quantity 1 length_dim"
    by (simp_all add: q_div_def q_mul_def dim_defs)
  have k: "KeplerElements_new
             \<lparr>arg_P = Some (Quantity (1461 / 4) time_dim), arg_a = Some (Quantity 1 length_dim),
              arg_e = Some (Quantity (1 / 2) dimensionless),
              arg_omega = Some (Quantity 67 angle_dim),
              arg_i = Some (Quantity 21 angle_dim), arg_Omega = Some (Quantity 33 angle_dim),
              arg_M0 = Some (Quantity 53 angle_dim),
              arg_t0 = Some (T0_Time (Time_val (591121423 / 10000) ''mjd'' ''tcb'')),
              arg_units = None\<rparr>
           = Inr (test_api_kepler_obj\<lparr>priv_a := Some (Quantity 1 length_dim)\<rparr>)"
    by (simp add: KeplerElements_new_Inr_iff quantity_input_Inr_iff set_attributes_Inr_iff
       test_api_kepler_obj_def
       assign_attributes_def new_instance_def default_M0_def default_t0_def resolve_units_def
       wrap_angle_def wrap_at_360_def dim_defs)
  show ?thesis
    by (simp add: get_component_def g q k)
qed

lemma get_component_populated_2:
  "get_component populated_twobody_obj (PyStr ''2'')
     = Inr (test_api_kepler_obj
              \<lparr>priv_a := Some (Quantity (1 / 2) length_dim),
               priv_omega := Some (Quantity 247 angle_dim)\<rparr>)"
proof -
  have g: "getter ''m1'' populated_twobody_obj = Inr (Quantity 1 mass_dim)"
    "read_m_tot populated_twobody_obj = Inr (Quantity 3 mass_dim)"
    "getter ''a'' populated_twobody_obj = Inr (Quantity (3 / 2) length_dim)"
    "getter ''omega'' populated_twobody_obj = Inr (Quantity 67 angle_dim)"
    "getter ''P'' populated_twobody_obj = Inr (Quantity (1461 / 4) time_dim)"
    "getter ''e'' populated_twobody_obj = Inr (Quantity (1 / 2) dimensionless)"
    "getter ''i'' populated_twobody_obj = Inr (Quantity 21 angle_dim)"
    "getter ''Omega'' populated_twobody_obj = Inr (Quantity 33 angle_dim)"
    "getter ''M0'' populated_twobody_obj = Inr (Quantity 53 angle_dim)"
    "read_t0 populated_twobody_obj = Inr (Time_val (591121423 / 10000) ''mjd'' ''tcb'')"
    by (simp_all add: getter_def read_m_tot_def read_t0_def lookup_private_def decompose_def
          populated_twobody_obj_def test_api_kepler_obj_def)
  have q: "q_div (Quantity 1 mass_dim) (Quantity 3 mass_dim) = Inr (Quantity (1 / 3) dimensionless)"
    "q_mul (Quantity (1 / 3) dimensionless) (Quantity (3 / 2) length_dim) = Quantity (1 / 2) length_dim"
    "q_add (Quantity 67 angle_dim) (Quantity 180 angle_dim) = Inr (Quantity 247 angle_dim)"
    by (simp_all add: q_div_def q_mul_def q_add_def dim_defs)
  have k: "KeplerElements_new
             \<lparr>arg_P = Some (Quantity (1461 / 4) time_dim), arg_a = Some (Quantity (1 / 2) length_dim),
              arg_e = Some (Quantity (1 / 2) dimensionless),
              arg_omega = Some (Quantity 247 angle_dim),
              arg_i = Some (Quantity 21 angle_dim), arg_Omega = Some (Quantity 33 angle_dim),
              arg_M0 = Some (Quantity 53 angle_dim),
              arg_t0 = Some (T0_Time (Time_val (591121423 / 10000) ''mjd'' ''tcb'')),
              arg_units = None\<rparr>
           = Inr (test_api_kepler_obj
              \<lparr>priv_a := Some (Quantity (1 / 2) length_dim),
               priv_omega := Some (Quantity 247 angle_dim)\<rparr>)"
    by (simp add: KeplerElements_new_Inr_iff quantity_input_Inr_iff set_attributes_Inr_iff
       test_api_kepler_obj_def
       assign_attributes_def new_instance_def default_M0_def default_t0_def resolve_units_def
       wrap_angle_def wrap_at_360_def dim_defs)
  show ?thesis
    by (simp add: get_component_def g q k)
qed





section \<open>The claims\<close>

text \<open>
  C3. The specification asks for a strictly positive period: \<^verbatim>\<open>P=0\<close> refused,
  \<^verbatim>\<open>P=365\<close> days accepted. The test of line 120 is \<^verbatim>\<open>P < 0*u.day\<close>, so
  \<^verbatim>\<open>KeplerElements\<close> with a period of zero days (the other fields those of the test
  script) is accepted and stores the zero; 365 days is accepted, and a negative period is
  refused with the message that the period must be positive.
\<close>

theorem period_zero_is_accepted:
  "KeplerElements_new (test_api_kepler_args\<lparr>arg_P := Some (Quantity 0 time_dim)\<rparr>)
     = Inr (test_api_kepler_obj\<lparr>priv_P := Some (Quantity 0 time_dim)\<rparr>)
   \<and> KeplerElements_new (test_api_kepler_args\<lparr>arg_P := Some (Quantity 365 time_dim)\<rparr>)
     = Inr (test_api_kepler_obj\<lparr>priv_P := Some (Quantity 365 time_dim)\<rparr>)
   \<and> KeplerElements_new (test_api_kepler_args\<lparr>arg_P := Some (Quantity (- 1) time_dim)\<rparr>)
     = Inl (ValueError ''Period `P` must be positive.'')"
  using KeplerElements_new_period [OF test_api_kepler_new, of 0]
        KeplerElements_new_period [OF test_api_kepler_new, of 365]
        KeplerElements_new_period [OF test_api_kepler_new, of "- 1"]
  by simp

text \<open>
  C5. \<^verbatim>\<open>KeplerElements\<close> enforces \<open>0 \<le> e < 1\<close>: in a call whose other fields are valid
  (the call is accepted with the eccentricity it has), putting an eccentricity \<open>x\<close> in
  its place gives the out-of-range \<^verbatim>\<open>ValueError\<close> exactly when \<open>x < 0\<close> or \<open>1 \<le> x\<close>, and
  otherwise the same object with \<open>x\<close> stored. The witness takes 0, 0.999, 1 and -0.1.
\<close>

theorem eccentricity_range:
  assumes "KeplerElements_new args = Inr obj"
  shows "KeplerElements_new (args\<lparr>arg_e := Some (Quantity x dimensionless)\<rparr>) =
     (if x < 0 \<or> 1 \<le> x then Inl (ValueError ''Eccentricity `e` must be: 0 <= e < 1'')
      else Inr (obj\<lparr>priv_e := Some (Quantity x dimensionless)\<rparr>))"
proof -
  from assms have "KeplerElements_quantity_input args = Inr ()"
    by (simp add: KeplerElements_new_Inr_iff)
  then have qi: "KeplerElements_quantity_input (args\<lparr>arg_e := Some (Quantity x dimensionless)\<rparr>) = Inr ()"
    by (simp add: quantity_input_Inr_iff)
  from assms obtain P omega i Omega e where f:
    "arg_P args = Some P" "arg_omega args = Some omega" "arg_i args = Some i"
    "arg_Omega args = Some Omega" "0 \<le> qvalue P"
    "(case arg_a args of None \<Rightarrow> True | Some a \<Rightarrow> 0 \<le> qvalue a)"
    "0 \<le> qvalue i" "qvalue i \<le> 180"
    and obj: "obj = (assign_attributes (new_instance KeplerElements) (arg_a args) P e omega i Omega
                  (default_M0 (arg_M0 args)) (default_t0 (arg_t0 args)))
                  \<lparr>inst_units := Some (resolve_units (arg_units args))\<rparr>"
    by (auto simp: KeplerElements_new_Inr_iff set_attributes_Inr_iff)
  have a: "\<not> (case arg_a args of None \<Rightarrow> False | Some a \<Rightarrow> qvalue a < 0)"
    using f(6) by (cases "arg_a args") auto
  show ?thesis
  proof (cases "x < 0 \<or> 1 \<le> x")
    case True
    then show ?thesis
      using f a
      by (auto simp: KeplerElements_new_def KeplerElements_init_def qi
           KeplerElements_set_attributes_def required_Some check_e_def Let_def)
  next
    case False
    then show ?thesis
      using f
      by (simp add: KeplerElements_new_Inr_iff qi set_attributes_Inr_iff obj
           assign_attributes_def)
  qed
qed

theorem eccentricity_range_witness:
  "KeplerElements_new test_api_kepler_args = Inr test_api_kepler_obj
   \<and> KeplerElements_new (test_api_kepler_args\<lparr>arg_e := Some (Quantity 0 dimensionless)\<rparr>)
     = Inr (test_api_kepler_obj\<lparr>priv_e := Some (Quantity 0 dimensionless)\<rparr>)
   \<and> KeplerElements_new (test_api_kepler_args\<lparr>arg_e := Some (Quantity (999 / 1000) dimensionless)\<rparr>)
     = Inr (test_api_kepler_obj\<lparr>priv_e := Some (Quantity (999 / 1000) dimensionless)\<rparr>)
   \<and> KeplerElements_new (test_api_kepler_args\<lparr>arg_e := Some (Quantity 1 dimensionless)\<rparr>)
     = Inl (ValueError ''Eccentricity `e` must be: 0 <= e < 1'')
   \<and> KeplerElements_new (test_api_kepler_args\<lparr>arg_e := Some (Quantity (- 1 / 10) dimensionless)\<rparr>)
     = Inl (ValueError ''Eccentricity `e` must be: 0 <= e < 1'')"
  using test_api_kepler_new
        eccentricity_range [OF test_api_kepler_new, of 0]
        eccentricity_range [OF test_api_kepler_new, of "999 / 1000"]
        eccentricity_range [OF test_api_kepler_new, of 1]
        eccentricity_range [OF test_api_kepler_new, of "- 1 / 10"]
  by simp

text \<open>
  C6. \<^verbatim>\<open>KeplerElements\<close> enforces a closed range of 0 to 180 degrees for the
  inclination: in a call whose other fields are valid, putting an inclination of \<open>x\<close>
  degrees in its place is accepted for \<open>0 \<le> x \<le> 180\<close> (both ends included) and raises the
  out-of-range \<^verbatim>\<open>ValueError\<close> otherwise; the message ends with the offending value in
  degrees, rendered with exactly three decimals, which are those of the nearest
  thousandth.
\<close>

theorem inclination_range:
  assumes "KeplerElements_new args = Inr obj"
  shows "KeplerElements_new (args\<lparr>arg_i := Some (Quantity x angle_dim)\<rparr>) =
     (if x < 0 \<or> 180 < x
      then Inl (ValueError (''Inclination `i` must be between 0'' @ [CHR 0xBA] @ '' and 180''
                  @ [CHR 0xBA] @ '', you passed in i='' @ format_3f x @ '' deg''))
      else Inr (obj\<lparr>priv_i := Some (Quantity x angle_dim)\<rparr>))
    \<and> (\<exists>n. \<bar>real n - \<bar>x\<bar> * 1000\<bar> \<le> 1 / 2 \<and>
          format_3f x = (if x < 0 then ''-'' else '''') @ show_nat (n div 1000) @ ''.''
            @ [digit_char (n div 100 mod 10), digit_char (n div 10 mod 10), digit_char (n mod 10)])"
proof
  from assms have "KeplerElements_quantity_input args = Inr ()"
    by (simp add: KeplerElements_new_Inr_iff)
  then have qi: "KeplerElements_quantity_input (args\<lparr>arg_i := Some (Quantity x angle_dim)\<rparr>) = Inr ()"
    by (simp add: quantity_input_Inr_iff)
  from assms obtain P omega i Omega e where f:
    "arg_P args = Some P" "arg_omega args = Some omega"
    "arg_Omega args = Some Omega" "arg_e args = Some e" "0 \<le> qvalue P"
    "(case arg_a args of None \<Rightarrow> True | Some a \<Rightarrow> 0 \<le> qvalue a)"
    "qdim e = dimensionless" "0 \<le> qvalue e" "qvalue e < 1"
    and obj: "obj = (assign_attributes (new_instance KeplerElements) (arg_a args) P e omega i Omega
                  (default_M0 (arg_M0 args)) (default_t0 (arg_t0 args)))
                  \<lparr>inst_units := Some (resolve_units (arg_units args))\<rparr>"
    by (auto simp: KeplerElements_new_Inr_iff set_attributes_Inr_iff)
  have a: "\<not> (case arg_a args of None \<Rightarrow> False | Some a \<Rightarrow> qvalue a < 0)"
    using f(6) by (cases "arg_a args") auto
  have ce: "check_e (Some e) = Inr e"
    using f by (simp add: check_e_Inr_iff)
  show "KeplerElements_new (args\<lparr>arg_i := Some (Quantity x angle_dim)\<rparr>) =
     (if x < 0 \<or> 180 < x
      then Inl (ValueError (''Inclination `i` must be between 0'' @ [CHR 0xBA] @ '' and 180''
                  @ [CHR 0xBA] @ '', you passed in i='' @ format_3f x @ '' deg''))
      else Inr (obj\<lparr>priv_i := Some (Quantity x angle_dim)\<rparr>))"
  proof (cases "x < 0 \<or> 180 < x")
    case True
    then show ?thesis
      using f a
      by (simp add: KeplerElements_new_def KeplerElements_init_def qi
           KeplerElements_set_attributes_def required_Some ce Let_def
           inclination_message_def format_3f_deg_def)
  next
    case False
    then show ?thesis
      using f
      by (simp add: KeplerElements_new_Inr_iff qi set_attributes_Inr_iff obj
           assign_attributes_def)
  qed
next
  show "\<exists>n. \<bar>real n - \<bar>x\<bar> * 1000\<bar> \<le> 1 / 2 \<and>
          format_3f x = (if x < 0 then ''-'' else '''') @ show_nat (n div 1000) @ ''.''
            @ [digit_char (n div 100 mod 10), digit_char (n div 10 mod 10), digit_char (n mod 10)]"
    using round_half_even_close [of "\<bar>x\<bar> * 1000"]
    by (intro exI [of _ "round_half_even (\<bar>x\<bar> * 1000)"]) (simp add: format_3f_def Let_def)
qed

theorem inclination_range_witness:
  "KeplerElements_new (test_api_kepler_args\<lparr>arg_i := Some (Quantity 0 angle_dim)\<rparr>)
     = Inr (test_api_kepler_obj\<lparr>priv_i := Some (Quantity 0 angle_dim)\<rparr>)
   \<and> KeplerElements_new (test_api_kepler_args\<lparr>arg_i := Some (Quantity 180 angle_dim)\<rparr>)
     = Inr (test_api_kepler_obj\<lparr>priv_i := Some (Quantity 180 angle_dim)\<rparr>)
   \<and> KeplerElements_new (test_api_kepler_args\<lparr>arg_i := Some (Quantity (1801 / 10) angle_dim)\<rparr>)
     = Inl (ValueError (''Inclination `i` must be between 0'' @ [CHR 0xBA] @ '' and 180''
              @ [CHR 0xBA] @ '', you passed in i=180.100 deg''))
   \<and> KeplerElements_new (test_api_kepler_args\<lparr>arg_i := Some (Quantity (- 1 / 2) angle_dim)\<rparr>)
     = Inl (ValueError (''Inclination `i` must be between 0'' @ [CHR 0xBA] @ '' and 180''
              @ [CHR 0xBA] @ '', you passed in i=-0.500 deg''))"
  using inclination_range [OF test_api_kepler_new, of 0, THEN conjunct1]
        inclination_range [OF test_api_kepler_new, of 180, THEN conjunct1]
        inclination_range [OF test_api_kepler_new, of "1801 / 10", THEN conjunct1]
        inclination_range [OF test_api_kepler_new, of "- 1 / 2", THEN conjunct1]
  by (simp add: format_3f_example format_3f_negative_example)

text \<open>
  C7. For every \<^verbatim>\<open>KeplerElements\<close> that is constructed, the accessors \<^verbatim>\<open>omega\<close> and
  \<^verbatim>\<open>Omega\<close> report the input angle wrapped into the range from 0 (included) to 360
  degrees (excluded), while \<^verbatim>\<open>i\<close> and \<^verbatim>\<open>M0\<close> report the angle as it was given (0
  degrees for an omitted \<^verbatim>\<open>M0\<close>). The witness gives 370 degrees and reads 10.
\<close>

theorem accessor_ranges:
  assumes "KeplerElements_new args = Inr obj"
    and "arg_omega args = Some omega" and "arg_Omega args = Some Omega"
    and "arg_i args = Some i"
  shows "getter ''omega'' obj = Inr (Quantity (wrap_at_360 (qvalue omega)) angle_dim)
       \<and> getter ''Omega'' obj = Inr (Quantity (wrap_at_360 (qvalue Omega)) angle_dim)
       \<and> 0 \<le> wrap_at_360 (qvalue omega) \<and> wrap_at_360 (qvalue omega) < 360
       \<and> 0 \<le> wrap_at_360 (qvalue Omega) \<and> wrap_at_360 (qvalue Omega) < 360
       \<and> getter ''i'' obj = Inr i
       \<and> getter ''M0'' obj = Inr (default_M0 (arg_M0 args))"
proof -
  from assms(1) have qi: "KeplerElements_quantity_input args = Inr ()"
    by (simp add: KeplerElements_new_Inr_iff)
  have d: "qdim omega = angle_dim" "qdim Omega = angle_dim"
    using qi assms(2,3) by (simp_all add: quantity_input_Inr_iff)
  from assms obtain P e where
    obj: "obj = (assign_attributes (new_instance KeplerElements) (arg_a args) P e omega i Omega
                  (default_M0 (arg_M0 args)) (default_t0 (arg_t0 args)))
                  \<lparr>inst_units := Some (resolve_units (arg_units args))\<rparr>"
    by (auto simp: KeplerElements_new_Inr_iff set_attributes_Inr_iff)
  show ?thesis
    using d wrap_at_360_range [of "qvalue omega"] wrap_at_360_range [of "qvalue Omega"]
    by (simp add: obj getter_def lookup_private_def assign_attributes_def decompose_def
         wrap_angle_def)
qed

theorem accessor_ranges_witness:
  "\<exists>obj. KeplerElements_new
            (test_api_kepler_args
               \<lparr>arg_omega := Some (Quantity 370 angle_dim),
                arg_Omega := Some (Quantity (- 30) angle_dim),
                arg_M0 := Some (Quantity 400 angle_dim)\<rparr>) = Inr obj
     \<and> getter ''omega'' obj = Inr (Quantity 10 angle_dim)
     \<and> getter ''Omega'' obj = Inr (Quantity 330 angle_dim)
     \<and> getter ''i'' obj = Inr (Quantity 21 angle_dim)
     \<and> getter ''M0'' obj = Inr (Quantity 400 angle_dim)"
proof -
  let ?args = "test_api_kepler_args
               \<lparr>arg_omega := Some (Quantity 370 angle_dim),
                arg_Omega := Some (Quantity (- 30) angle_dim),
                arg_M0 := Some (Quantity 400 angle_dim)\<rparr>"
  have "\<exists>obj. KeplerElements_new ?args = Inr obj"
    by (simp add: KeplerElements_new_Inr_iff quantity_input_Inr_iff set_attributes_Inr_iff
          test_api_kepler_args_def KeplerElements_defaults_def dim_defs)
  then obtain obj where obj: "KeplerElements_new ?args = Inr obj" ..
  have "arg_omega ?args = Some (Quantity 370 angle_dim)"
    and "arg_Omega ?args = Some (Quantity (- 30) angle_dim)"
    and "arg_i ?args = Some (Quantity 21 angle_dim)"
    by (simp_all add: test_api_kepler_args_def)
  from accessor_ranges [OF obj this] obj show ?thesis
    by (simp add: wrap_at_360_def default_M0_def)
qed

text \<open>
  C1. The specification has every valid \<^verbatim>\<open>TwoBodyKeplerElements\<close> call succeed, its own
  example included (masses 1 and 2 solar masses, a = 1.5 AU, e = 0.5, omega = 67, i = 21,
  Omega = 33, M0 = 53 degrees, t0 = MJD 59112.1423). The class lists \<^verbatim>\<open>m1\<close> and \<^verbatim>\<open>m2\<close>
  in \<^verbatim>\<open>names\<close>, nothing assigns \<^verbatim>\<open>_m1\<close> or \<^verbatim>\<open>_m2\<close>, and the check of lines 60 to 62
  raises: the example call ends in \<^verbatim>\<open>AttributeError('Invalid class definition!')\<close>
  whenever \<^verbatim>\<open>a_m_to_P\<close> answers a period that is not negative, and the inherited
  initialiser returns for no arguments at all on a two-body object.
\<close>

theorem twobody_construction_raises:
  assumes "a_m_to_P (Some (Quantity (3 / 2) length_dim)) (Quantity 3 mass_dim)
             = Inr (Quantity p time_dim)"
    and "0 \<le> p"
  shows "TwoBodyKeplerElements_new a_m_to_P P_m_to_a test_api_twobody_args
           = Inl (AttributeError ''Invalid class definition!'')
       \<and> KeplerElements_init (new_instance TwoBodyKeplerElements) kargs \<noteq> Inr obj"
  using TwoBodyKeplerElements_new_from_a [of a_m_to_P "3 / 2" 1 2 p P_m_to_a] assms
    KeplerElements_init_TwoBody [of kargs obj]
  by (simp add: test_api_twobody_args_eq)

theorem twobody_construction_raises_witness:
  "TwoBodyKeplerElements_new
     (\<lambda>a m. Inr (Quantity (3874 / 10) time_dim)) (\<lambda>P m. Inr (Quantity (3 / 2) length_dim))
     test_api_twobody_args
   = Inl (AttributeError ''Invalid class definition!'')"
  using twobody_construction_raises
    [of "\<lambda>a m. Inr (Quantity (3874 / 10) time_dim)" "3874 / 10"
        "\<lambda>P m. Inr (Quantity (3 / 2) length_dim)", THEN conjunct1]
  by simp

text \<open>
  C2. In every \<^verbatim>\<open>TwoBodyKeplerElements\<close> call that reaches the inherited initialiser,
  the keyword \<^verbatim>\<open>Omega\<close> it hands over is the caller's \<^verbatim>\<open>omega\<close> (as is the keyword
  \<^verbatim>\<open>omega\<close>); the longitude of the ascending node that line 139 stores is therefore the
  wrapped \<^verbatim>\<open>omega\<close>, equal to the stored argument of pericenter, and the body of the
  initialiser does the same whatever the caller's \<^verbatim>\<open>Omega\<close> is.
\<close>

theorem Omega_argument_is_ignored:
  assumes "TwoBodyKeplerElements_super_args a_m_to_P P_m_to_a args = Inr kargs"
    and "KeplerElements_set_attributes self kargs = Inr self'"
  shows "arg_Omega kargs = arg_omega args
       \<and> arg_omega kargs = arg_omega args
       \<and> priv_Omega self' = map_option wrap_angle (arg_omega args)
       \<and> priv_Omega self' = priv_omega self'
       \<and> TwoBodyKeplerElements_body a_m_to_P P_m_to_a self (args\<lparr>arg_Omega := X\<rparr>)
           = TwoBodyKeplerElements_body a_m_to_P P_m_to_a self args"
proof -
  note k = super_args_Omega [OF assms(1)]
  from assms(2) obtain P omega i Omega e where
    "arg_omega kargs = Some omega" "arg_Omega kargs = Some Omega"
    and s: "self' = assign_attributes self (arg_a kargs) P e omega i Omega
                  (default_M0 (arg_M0 kargs)) (default_t0 (arg_t0 kargs))"
    by (auto simp: set_attributes_Inr_iff)
  with k have "arg_omega args = Some omega" "Omega = omega" by (metis option.inject)+
  then have "priv_Omega self' = map_option wrap_angle (arg_omega args)"
    and "priv_Omega self' = priv_omega self'"
    by (simp_all add: s assign_attributes_def)
  moreover have "TwoBodyKeplerElements_body a_m_to_P P_m_to_a self (args\<lparr>arg_Omega := X\<rparr>)
           = TwoBodyKeplerElements_body a_m_to_P P_m_to_a self args"
    by (simp add: TwoBodyKeplerElements_body_def super_args_ignores_Omega)
  ultimately show ?thesis using k by simp
qed

theorem Omega_argument_is_ignored_witness:
  "\<exists>kargs self'.
     TwoBodyKeplerElements_super_args
       (\<lambda>a m. Inr (Quantity (3874 / 10) time_dim)) (\<lambda>P m. Inr (Quantity (3 / 2) length_dim))
       test_api_twobody_args = Inr kargs
     \<and> KeplerElements_set_attributes (new_instance TwoBodyKeplerElements) kargs = Inr self'
     \<and> arg_Omega test_api_twobody_args = Some (Quantity 33 angle_dim)
     \<and> arg_Omega kargs = Some (Quantity 67 angle_dim)
     \<and> priv_Omega self' = Some (Quantity 67 angle_dim)"
proof -
  let ?amp = "\<lambda>(a :: quantity option) (m :: quantity). (Inr (Quantity (3874 / 10) time_dim) :: error + quantity)"
  let ?pma = "\<lambda>(P :: quantity) (m :: quantity). (Inr (Quantity (3 / 2) length_dim) :: error + quantity)"
  let ?kargs = "\<lparr>arg_P = Some (Quantity (3874 / 10) time_dim),
       arg_a = Some (Quantity (3 / 2) length_dim),
       arg_e = Some (Quantity (1 / 2) dimensionless),
       arg_omega = Some (Quantity 67 angle_dim), arg_i = Some (Quantity 21 angle_dim),
       arg_Omega = Some (Quantity 67 angle_dim), arg_M0 = Some (Quantity 53 angle_dim),
       arg_t0 = Some (T0_number (591121423 / 10000)), arg_units = None\<rparr>"
  have sa: "TwoBodyKeplerElements_super_args ?amp ?pma test_api_twobody_args = Inr ?kargs"
    by (simp add: TwoBodyKeplerElements_super_args_def test_api_twobody_args_def
          TwoBodyKeplerElements_defaults_def q_add_def q_to_def)
  have "\<exists>self'. KeplerElements_set_attributes (new_instance TwoBodyKeplerElements) ?kargs = Inr self'"
    by (simp add: set_attributes_Inr_iff)
  then obtain self' where
    st: "KeplerElements_set_attributes (new_instance TwoBodyKeplerElements) ?kargs = Inr self'" ..
  have w: "wrap_angle (Quantity 67 angle_dim) = Quantity 67 angle_dim"
    by (simp add: wrap_angle_def wrap_at_360_def)
  have "arg_Omega test_api_twobody_args = Some (Quantity 33 angle_dim)"
    and "arg_omega test_api_twobody_args = Some (Quantity 67 angle_dim)"
    by (simp_all add: test_api_twobody_args_def)
  with Omega_argument_is_ignored [OF sa st] sa st w show ?thesis
    by (intro exI [of _ ?kargs] exI [of _ self']) simp
qed

text \<open>
  C4. The specification has an omitted eccentricity default to 0 in both constructors.
  \<^verbatim>\<open>KeplerElements\<close> does: its signature has \<^verbatim>\<open>e=0\<close>, and a call without \<^verbatim>\<open>e\<close> stores
  0. The signature of \<^verbatim>\<open>TwoBodyKeplerElements\<close> has \<^verbatim>\<open>e=None\<close> and passes it on, so that
  line 126 compares \<^verbatim>\<open>None\<close> with 0: a two-body call without \<^verbatim>\<open>e\<close> (masses 1 and 2,
  P = 1 year, a = 1.5 AU, omega = 67, i = 21, Omega = 33 degrees) ends in a
  \<^verbatim>\<open>TypeError\<close>.
\<close>

theorem twobody_eccentricity_default:
  "arg_e KeplerElements_defaults = Some (Quantity 0 dimensionless)
   \<and> KeplerElements_new
       (KeplerElements_defaults
          \<lparr>arg_P := Some (Quantity (1461 / 4) time_dim),
           arg_omega := Some (Quantity 67 angle_dim),
           arg_i := Some (Quantity 21 angle_dim),
           arg_Omega := Some (Quantity 33 angle_dim)\<rparr>)
     = Inr (test_api_kepler_obj
              \<lparr>priv_a := Some (Quantity 1 dimensionless),
               priv_e := Some (Quantity 0 dimensionless),
               priv_M0 := Some (Quantity 0 angle_dim),
               inst_t0 := Some (Time_str ''J2000'')\<rparr>)
   \<and> arg_e TwoBodyKeplerElements_defaults = None
   \<and> TwoBodyKeplerElements_new a_m_to_P P_m_to_a
       (TwoBodyKeplerElements_defaults
          \<lparr>arg_P := Some (Quantity (1461 / 4) time_dim),
           arg_a := Some (Quantity (3 / 2) length_dim),
           arg_omega := Some (Quantity 67 angle_dim),
           arg_i := Some (Quantity 21 angle_dim),
           arg_Omega := Some (Quantity 33 angle_dim),
           arg_m1 := Some (Quantity 1 mass_dim),
           arg_m2 := Some (Quantity 2 mass_dim)\<rparr>)
     = Inl (TypeError ([CHR 0x27] @ ''<'' @ [CHR 0x27] @ '' not supported between instances of ''
              @ [CHR 0x27] @ ''NoneType'' @ [CHR 0x27] @ '' and '' @ [CHR 0x27] @ ''int'' @ [CHR 0x27]))"
proof -
  have 1: "KeplerElements_new
       (KeplerElements_defaults
          \<lparr>arg_P := Some (Quantity (1461 / 4) time_dim),
           arg_omega := Some (Quantity 67 angle_dim),
           arg_i := Some (Quantity 21 angle_dim),
           arg_Omega := Some (Quantity 33 angle_dim)\<rparr>)
     = Inr (test_api_kepler_obj
              \<lparr>priv_a := Some (Quantity 1 dimensionless),
               priv_e := Some (Quantity 0 dimensionless),
               priv_M0 := Some (Quantity 0 angle_dim),
               inst_t0 := Some (Time_str ''J2000'')\<rparr>)"
    by (simp add: KeplerElements_new_Inr_iff quantity_input_Inr_iff set_attributes_Inr_iff
       test_api_kepler_obj_def KeplerElements_defaults_def
       assign_attributes_def new_instance_def default_M0_def default_t0_def resolve_units_def
       wrap_angle_def wrap_at_360_def dim_defs)
  let ?args = "TwoBodyKeplerElements_defaults
          \<lparr>arg_P := Some (Quantity (1461 / 4) time_dim),
           arg_a := Some (Quantity (3 / 2) length_dim),
           arg_omega := Some (Quantity 67 angle_dim),
           arg_i := Some (Quantity 21 angle_dim),
           arg_Omega := Some (Quantity 33 angle_dim),
           arg_m1 := Some (Quantity 1 mass_dim),
           arg_m2 := Some (Quantity 2 mass_dim)\<rparr>"
  let ?kargs = "\<lparr>arg_P = Some (Quantity (1461 / 4) time_dim),
       arg_a = Some (Quantity (3 / 2) length_dim),
       arg_e = None,
       arg_omega = Some (Quantity 67 angle_dim), arg_i = Some (Quantity 21 angle_dim),
       arg_Omega = Some (Quantity 67 angle_dim), arg_M0 = None,
       arg_t0 = None, arg_units = None\<rparr>"
  have qi: "TwoBodyKeplerElements_quantity_input ?args = Inr ()"
    by (simp add: twobody_quantity_input_Inr_iff TwoBodyKeplerElements_defaults_def)
  have sa: "TwoBodyKeplerElements_super_args a_m_to_P P_m_to_a ?args = Inr ?kargs"
    by (simp add: TwoBodyKeplerElements_super_args_def TwoBodyKeplerElements_defaults_def)
  have kqi: "KeplerElements_quantity_input ?kargs = Inr ()"
    by (simp add: quantity_input_Inr_iff)
  have "KeplerElements_set_attributes (new_instance TwoBodyKeplerElements) ?kargs
          = Inl (TypeError ([CHR 0x27] @ ''<'' @ [CHR 0x27] @ '' not supported between instances of ''
              @ [CHR 0x27] @ ''NoneType'' @ [CHR 0x27] @ '' and '' @ [CHR 0x27] @ ''int'' @ [CHR 0x27]))"
    by (simp add: KeplerElements_set_attributes_def required_Some check_e_def Let_def
          none_comparison_message_def)
  then have 2: "TwoBodyKeplerElements_new a_m_to_P P_m_to_a ?args
     = Inl (TypeError ([CHR 0x27] @ ''<'' @ [CHR 0x27] @ '' not supported between instances of ''
              @ [CHR 0x27] @ ''NoneType'' @ [CHR 0x27] @ '' and '' @ [CHR 0x27] @ ''int'' @ [CHR 0x27]))"
    by (simp add: TwoBodyKeplerElements_new_def TwoBodyKeplerElements_init_def
          TwoBodyKeplerElements_body_def qi sa KeplerElements_init_def kqi)
  show ?thesis
    using 1 2 by (simp add: KeplerElements_defaults_def TwoBodyKeplerElements_defaults_def)
qed


text \<open>
  C8. The specification has a round trip through Kepler's third law: build a two-body
  object from \<^verbatim>\<open>a\<close> and the masses, read \<^verbatim>\<open>P\<close> back, build a second one from that
  \<^verbatim>\<open>P\<close> and the same masses, and find the same \<^verbatim>\<open>a\<close>. Neither object is ever built:
  for all masses and every semi-major axis that is not negative, whatever period and
  semi-major axis (not negative) the two transforms answer, both constructor calls end
  in \<^verbatim>\<open>AttributeError('Invalid class definition!')\<close>, so that no \<^verbatim>\<open>P\<close> can be read back.
\<close>

theorem kepler_round_trip_raises:
  assumes "a_m_to_P (Some (Quantity a length_dim)) (Quantity (m1 + m2) mass_dim)
             = Inr (Quantity p time_dim)"
    and "P_m_to_a (Quantity p time_dim) (Quantity (m1 + m2) mass_dim)
             = Inr (Quantity a' length_dim)"
    and "0 \<le> a" and "0 \<le> p" and "0 \<le> a'"
  shows "TwoBodyKeplerElements_new a_m_to_P P_m_to_a
           (test_api_twobody_args
              \<lparr>arg_a := Some (Quantity a length_dim),
               arg_m1 := Some (Quantity m1 mass_dim),
               arg_m2 := Some (Quantity m2 mass_dim)\<rparr>)
         = Inl (AttributeError ''Invalid class definition!'')
       \<and> TwoBodyKeplerElements_new a_m_to_P P_m_to_a
           (test_api_twobody_args
              \<lparr>arg_P := Some (Quantity p time_dim),
               arg_a := None,
               arg_m1 := Some (Quantity m1 mass_dim),
               arg_m2 := Some (Quantity m2 mass_dim)\<rparr>)
         = Inl (AttributeError ''Invalid class definition!'')"
  using TwoBodyKeplerElements_new_from_a [of a_m_to_P a m1 m2 p P_m_to_a]
        TwoBodyKeplerElements_new_from_P [of P_m_to_a p m1 m2 a' a_m_to_P]
        assms
  by simp

theorem kepler_round_trip_raises_witness:
  "TwoBodyKeplerElements_new
     (\<lambda>a m. Inr (Quantity (3874 / 10) time_dim)) (\<lambda>P m. Inr (Quantity (3 / 2) length_dim))
     (test_api_twobody_args
        \<lparr>arg_a := Some (Quantity (3 / 2) length_dim),
         arg_m1 := Some (Quantity 1 mass_dim),
         arg_m2 := Some (Quantity 2 mass_dim)\<rparr>)
   = Inl (AttributeError ''Invalid class definition!'')
   \<and> TwoBodyKeplerElements_new
     (\<lambda>a m. Inr (Quantity (3874 / 10) time_dim)) (\<lambda>P m. Inr (Quantity (3 / 2) length_dim))
     (test_api_twobody_args
        \<lparr>arg_P := Some (Quantity (3874 / 10) time_dim),
         arg_a := None,
         arg_m1 := Some (Quantity 1 mass_dim),
         arg_m2 := Some (Quantity 2 mass_dim)\<rparr>)
   = Inl (AttributeError ''Invalid class definition!'')"
  using kepler_round_trip_raises
    [of "\<lambda>a m. Inr (Quantity (3874 / 10) time_dim)" "3 / 2" 1 2 "3874 / 10"
        "\<lambda>P m. Inr (Quantity (3 / 2) length_dim)" "3 / 2"]
  by simp



text \<open>
  C10. \<^verbatim>\<open>get_component\<close> turns its argument into a string first: on every object the
  integer 1 behaves as the string \<^verbatim>\<open>'1'\<close>, and 2 as \<^verbatim>\<open>'2'\<close>; an argument whose string
  form is neither raises the \<^verbatim>\<open>ValueError\<close> for an invalid input, and so returns no
  object.
\<close>

theorem get_component_dispatch:
  assumes "py_str num \<noteq> ''1''" and "py_str num \<noteq> ''2''"
  shows "get_component self (PyInt 1) = get_component self (PyStr ''1'')
       \<and> get_component self (PyInt 2) = get_component self (PyStr ''2'')
       \<and> get_component self num = Inl (ValueError (invalid_input_message (py_str num)))"
  using assms by (simp add: get_component_def show_nat.simps digit_char_def)

theorem get_component_dispatch_witness:
  "get_component populated_twobody_obj (PyInt 1)
     = Inr (test_api_kepler_obj\<lparr>priv_a := Some (Quantity 1 length_dim)\<rparr>)
   \<and> get_component populated_twobody_obj (PyInt 2)
     = Inr (test_api_kepler_obj
              \<lparr>priv_a := Some (Quantity (1 / 2) length_dim),
               priv_omega := Some (Quantity 247 angle_dim)\<rparr>)
   \<and> get_component populated_twobody_obj (PyInt 3)
     = Inl (ValueError (''Invalid input '' @ [CHR 0x27] @ ''3'' @ [CHR 0x27] @ '' - must be ''
              @ [CHR 0x27] @ ''1'' @ [CHR 0x27] @ '' or '' @ [CHR 0x27] @ ''2'' @ [CHR 0x27]))
   \<and> get_component populated_twobody_obj (PyStr ''primary'')
     = Inl (ValueError (''Invalid input '' @ [CHR 0x27] @ ''primary'' @ [CHR 0x27] @ '' - must be ''
              @ [CHR 0x27] @ ''1'' @ [CHR 0x27] @ '' or '' @ [CHR 0x27] @ ''2'' @ [CHR 0x27]))"
  using get_component_dispatch [of "PyInt 3" populated_twobody_obj]
        get_component_dispatch [of "PyStr ''primary''" populated_twobody_obj]
        get_component_populated_1 get_component_populated_2
  by (simp add: show_nat.simps digit_char_def invalid_input_message_def)


end
